theory Spec2Isabelle
  imports Complex_Main "HOL-Library.AList"
begin

section \<open>Synthetic sensor data: a model of \<open>make_synthetic_test\<close>\<close>

text \<open>
  The theory embeds \<^verbatim>\<open>make_synthetic_test\<close> of \<^verbatim>\<open>synthetic_data.py\<close>. The
  conventions of the embedding:
  \<^item> a Python float is a real number; only \<^verbatim>\<open>sample_interval_sec\<close>, which the code
    tests with \<^verbatim>\<open>np.isfinite\<close>, ranges over \<open>pyfloat\<close> (a real, an infinity or NaN);
  \<^item> float arithmetic is exact, except on the way to a timestamp: a float that is cut to
    whole nanoseconds loses or keeps its last nanosecond by the rounding of one float
    product, so that product is a parameter, and so is the seconds of a scalar
    \<^verbatim>\<open>Timedelta\<close>, which pandas versions compute to different precision;
  \<^item> a pandas \<^verbatim>\<open>Timestamp\<close> and a \<^verbatim>\<open>Timedelta\<close> are integers counting nanoseconds,
    unbounded here (pandas stops at 64 bits, in the year 2262);
  \<^item> the training frame is its \<^verbatim>\<open>time\<close> column, a list of timestamps without NaT;
  \<^item> a dictionary is an association list, so that insertion order and the test for the
    empty dictionary are those of Python;
  \<^item> NumPy's seeded generator is a parameter: a record of the four sampling functions the
    code calls, each taking the generator state and returning the draw with the new state;
  \<^item> a trend model's \<^verbatim>\<open>predict\<close> works row by row and is a function on reals;
  \<^item> every exception is a value of \<open>error\<close>, and the function returns \<open>error + result\<close>.
\<close>

subsection \<open>Data model\<close>

datatype pyfloat = Finite real | PosInf | NegInf | NaN

text \<open>
  \<open>NaN_cells\<close> is not a Python exception. On an empty training frame \<^verbatim>\<open>max()\<close> is NaT
  and every time cell of the table becomes NaT or NaN; on an empty residual sample
  \<^verbatim>\<open>np.std\<close> is NaN and so is the noise. The cells of the model are reals, so the model
  stops there with \<open>NaN_cells\<close> where NumPy would carry NaN through the table.
\<close>

datatype error =
    ValueError
  | IndexError
  | KeyError string
  | ZeroDivisionError
  | TypeError
  | NaN_cells

datatype column = TimeCol "int list" | NumCol "real list"

type_synonym frame = "(string \<times> column) list"

record 'g generator =
  default_rng :: "nat \<Rightarrow> 'g"
  normal :: "'g \<Rightarrow> real \<Rightarrow> real \<Rightarrow> nat \<Rightarrow> real list \<times> 'g"
  uniform :: "'g \<Rightarrow> real \<Rightarrow> real \<Rightarrow> real \<times> 'g"
  integers :: "'g \<Rightarrow> int \<Rightarrow> int \<Rightarrow> int \<times> 'g"
  choice :: "'g \<Rightarrow> string list \<Rightarrow> string \<times> 'g"

text \<open>
  \<open>float_mul\<close> is the product of two doubles, as the machine rounds it;
  \<open>timedelta_seconds\<close> is \<^verbatim>\<open>Timedelta.total_seconds()\<close> on a scalar, from nanoseconds.
\<close>

record library =
  float_mul :: "real \<Rightarrow> real \<Rightarrow> real"
  timedelta_seconds :: "int \<Rightarrow> real"

record args =
  df_train :: "int list"
  models :: "(string \<times> (real \<Rightarrow> real)) list"
  axes :: "string list"
  n_rows :: "int option"
  sample_interval_sec :: "pyfloat option"
  anomaly_blocks :: int
  block_min_sec :: real
  block_max_sec :: real
  drift_per_sec :: real
  seed :: "int option"
  residuals_dict :: "(string \<times> real list) list option"
  force_above :: bool
  MinC :: "(string \<times> real) list option"
  MaxC :: "(string \<times> real) list option"

subsection \<open>Library functions the code calls\<close>

text \<open>Python's \<^verbatim>\<open>round\<close> on a float: to the nearest integer, a tie to the even one.\<close>

definition py_round :: "real \<Rightarrow> int" where
  "py_round x =
     (let f = \<lfloor>x\<rfloor>; d = x - of_int f
      in if d < 1 / 2 then f else if 1 / 2 < d then f + 1
         else if even f then f else f + 1)"

text \<open>The C cast of a float to \<^verbatim>\<open>int64_t\<close>: towards zero.\<close>

definition trunc :: "real \<Rightarrow> int" where
  "trunc x = (if 0 \<le> x then \<lfloor>x\<rfloor> else \<lceil>x\<rceil>)"

text \<open>
  \<^verbatim>\<open>pd.to_timedelta(x, unit="s")\<close> on a float: pandas casts the whole seconds to an
  integer, rounds the fraction to nine decimals with Python's \<^verbatim>\<open>round\<close>, multiplies the
  rounded fraction by \<open>1e9\<close> as a float and casts that product to an integer too.
\<close>

definition to_timedelta :: "library \<Rightarrow> real \<Rightarrow> int" where
  "to_timedelta lib x =
     (let base = trunc x; frac = x - of_int base;
          frac9 = of_int (py_round (frac * 1000000000)) / 1000000000
      in base * 1000000000 + trunc (float_mul lib frac9 1000000000))"

text \<open>\<^verbatim>\<open>.dt.total_seconds()\<close> of a series of time deltas: the nanoseconds over \<open>1e9\<close>.\<close>

definition total_seconds :: "int \<Rightarrow> real" where
  "total_seconds ns = of_int ns / 1000000000"

text \<open>
  \<^verbatim>\<open>df_train['time'].diff()\<close>: the first entry is NaT, the others are the consecutive
  differences. \<open>diff\<close> lists the defined ones, which are all that \<^verbatim>\<open>nanmedian\<close> reads.
\<close>

fun diff :: "int list \<Rightarrow> int list" where
  "diff (a # b # ts) = (b - a) # diff (b # ts)"
| "diff _ = []"

text \<open>\<^verbatim>\<open>np.nanmedian\<close> on the defined entries; \<open>None\<close> is NaN, the median of nothing.\<close>

definition nanmedian :: "real list \<Rightarrow> real option" where
  "nanmedian xs =
     (if xs = [] then None
      else let s = sort xs; n = length s
           in Some (if odd n then s ! (n div 2)
                    else (s ! (n div 2 - 1) + s ! (n div 2)) / 2))"

text \<open>\<^verbatim>\<open>np.std\<close>, the population standard deviation; \<open>None\<close> is NaN, on the empty sample.\<close>

definition np_std :: "real list \<Rightarrow> real option" where
  "np_std xs =
     (if xs = [] then None
      else let n = real (length xs); mean = sum_list xs / n
           in Some (sqrt (sum_list (map (\<lambda>x. (x - mean)\<^sup>2) xs) / n)))"

subsection \<open>Time axis\<close>

text \<open>Lines 53 to 57: the sampling interval.\<close>

definition estimate_interval :: "int list \<Rightarrow> real" where
  "estimate_interval train =
     (case nanmedian (map total_seconds (diff train)) of
        None \<Rightarrow> 1
      | Some m \<Rightarrow> if m \<le> 0 then 1 else m)"

definition resolve_interval :: "pyfloat option \<Rightarrow> int list \<Rightarrow> real" where
  "resolve_interval si train =
     (case si of
        None \<Rightarrow> estimate_interval train
      | Some x \<Rightarrow> (case x of Finite r \<Rightarrow> r | _ \<Rightarrow> estimate_interval train))"

text \<open>Lines 59 and 60: the row count.\<close>

definition resolve_rows :: "int option \<Rightarrow> int list \<Rightarrow> int" where
  "resolve_rows n train = (case n of None \<Rightarrow> int (length train) | Some k \<Rightarrow> k)"

text \<open>
  Lines 63 to 68: the timestamps and the elapsed seconds. \<^verbatim>\<open>times[0]\<close> raises IndexError
  when \<^verbatim>\<open>range(n_rows)\<close> is empty, before \<^verbatim>\<open>max()\<close> of the training frame is looked at
  by anything but an addition.
\<close>

definition synthetic_times :: "library \<Rightarrow> int \<Rightarrow> real \<Rightarrow> nat \<Rightarrow> int list" where
  "synthetic_times lib start_time iv n =
     map (\<lambda>i. start_time + to_timedelta lib (float_mul lib (real i) iv)) [0..<n]"

definition time_axis :: "library \<Rightarrow> int list \<Rightarrow> real \<Rightarrow> int \<Rightarrow> error + (int list \<times> real list)" where
  "time_axis lib train iv n =
     (if n \<le> 0 then Inl IndexError
      else if train = [] then Inl NaN_cells
      else let start_time = Max (set train) + to_timedelta lib iv;
               tms = synthetic_times lib start_time iv (nat n);
               t0 = hd tms
           in Inr (tms, map (\<lambda>t. timedelta_seconds lib (t - t0)) tms))"

subsection \<open>Baseline\<close>

text \<open>Line 72: the residual standard deviation of every axis.\<close>

fun std_per_axis :: "(string \<times> real list) list \<Rightarrow> string list \<Rightarrow> error + (string \<times> real) list" where
  "std_per_axis d [] = Inr []"
| "std_per_axis d (a # as) =
     (case map_of d a of
        None \<Rightarrow> Inl (KeyError a)
      | Some xs \<Rightarrow>
          (case np_std xs of
             None \<Rightarrow> Inl NaN_cells
           | Some s \<Rightarrow>
               (case std_per_axis d as of
                  Inl e \<Rightarrow> Inl e
                | Inr rest \<Rightarrow> Inr ((a, s) # rest))))"

definition res_std_of :: "(string \<times> real list) list option \<Rightarrow> string list \<Rightarrow> error + (string \<times> real) list" where
  "res_std_of rd as =
     (case rd of
        None \<Rightarrow> Inr (map (\<lambda>a. (a, 1)) as)
      | Some d \<Rightarrow> if d = [] then Inr (map (\<lambda>a. (a, 1)) as) else std_per_axis d as)"

text \<open>Lines 76 to 80: one column per axis, in the order of \<^verbatim>\<open>axes\<close>.\<close>

definition axis_column :: "(real \<Rightarrow> real) \<Rightarrow> real list \<Rightarrow> real \<Rightarrow> real list \<Rightarrow> real list" where
  "axis_column m noise dps tn =
     map2 (+) (map2 (+) (map m tn) noise) (map (\<lambda>t. dps * t) tn)"

fun fill_axes ::
  "'g generator \<Rightarrow> (string \<times> (real \<Rightarrow> real)) list \<Rightarrow> (string \<times> real) list \<Rightarrow> real \<Rightarrow> real list \<Rightarrow>
   string list \<Rightarrow> frame \<times> 'g \<Rightarrow> error + (frame \<times> 'g)" where
  "fill_axes ops ms rs dps tn [] (data, g) = Inr (data, g)"
| "fill_axes ops ms rs dps tn (axis # rest) (data, g) =
     (case map_of ms axis of
        None \<Rightarrow> Inl (KeyError axis)
      | Some m \<Rightarrow>
          (case map_of rs axis of
             None \<Rightarrow> Inl (KeyError axis)
           | Some s \<Rightarrow>
               (let (noise, g') = normal ops g 0 s (length tn)
                in fill_axes ops ms rs dps tn rest
                     (AList.update axis (NumCol (axis_column m noise dps tn)) data, g'))))"

subsection \<open>Anomaly blocks\<close>

text \<open>Lines 86 to 90: the draws of one block: its row range and its axis.\<close>

definition draw_block ::
  "'g generator \<Rightarrow> args \<Rightarrow> real \<Rightarrow> int \<Rightarrow> 'g \<Rightarrow> error + (int \<times> int \<times> string \<times> 'g)" where
  "draw_block ops a iv n g =
     (let (block_len_sec, g1) = uniform ops g (block_min_sec a) (block_max_sec a)
      in if iv = 0 then Inl ZeroDivisionError
         else let block_len_rows = max 1 (py_round (block_len_sec / iv));
                  (start_idx, g2) = integers ops g1 0 (max 1 (n - block_len_rows));
                  end_idx = min n (start_idx + block_len_rows)
              in if axes a = [] then Inl ValueError
                 else let (axis, g3) = choice ops g2 (axes a)
                      in Inr (start_idx, end_idx, axis, g3))"

text \<open>Lines 92 to 97: the lift. The dictionary is read before the generator is.\<close>

definition block_lift ::
  "'g generator \<Rightarrow> args \<Rightarrow> (string \<times> real) list \<Rightarrow> string \<Rightarrow> 'g \<Rightarrow> error + (real \<times> 'g)" where
  "block_lift ops a rs axis g =
     (if force_above a \<and> MaxC a \<noteq> None then
        (case map_of (the (MaxC a)) axis of
           None \<Rightarrow> Inl (KeyError axis)
         | Some c \<Rightarrow> (let (u, g') = uniform ops g (6 / 5) (3 / 2) in Inr (\<bar>c\<bar> * u, g')))
      else
        (case map_of rs axis of
           None \<Rightarrow> Inl (KeyError axis)
         | Some s \<Rightarrow> (let (u, g') = uniform ops g (5 / 2) 4 in Inr (\<bar>s\<bar> * u, g'))))"

text \<open>
  Line 99: \<^verbatim>\<open>df_test.loc[start_idx:end_idx-1, axis] += lift\<close>. The index of the frame is
  \<open>0, 1, ...\<close>, so the label slice, which includes both ends, is the rows from
  \<open>start_idx\<close> up to but not including \<open>end_idx\<close>.
\<close>

definition lift_rows :: "int \<Rightarrow> int \<Rightarrow> real \<Rightarrow> real list \<Rightarrow> real list" where
  "lift_rows start_idx end_idx lift xs =
     map2 (\<lambda>i v. if start_idx \<le> int i \<and> int i < end_idx then v + lift else v) [0..<length xs] xs"

definition add_lift :: "frame \<Rightarrow> int \<Rightarrow> int \<Rightarrow> string \<Rightarrow> real \<Rightarrow> error + frame" where
  "add_lift df start_idx end_idx axis lift =
     (case map_of df axis of
        None \<Rightarrow> Inl (KeyError axis)
      | Some col \<Rightarrow>
          (case col of
             TimeCol ts \<Rightarrow> Inl TypeError
           | NumCol xs \<Rightarrow> Inr (AList.update axis (NumCol (lift_rows start_idx end_idx lift xs)) df)))"

definition inject_block ::
  "'g generator \<Rightarrow> args \<Rightarrow> real \<Rightarrow> int \<Rightarrow> (string \<times> real) list \<Rightarrow> frame \<times> 'g \<Rightarrow> error + (frame \<times> 'g)" where
  "inject_block ops a iv n rs st =
     (case draw_block ops a iv n (snd st) of
        Inl e \<Rightarrow> Inl e
      | Inr (start_idx, end_idx, axis, g3) \<Rightarrow>
          (case block_lift ops a rs axis g3 of
             Inl e \<Rightarrow> Inl e
           | Inr (lift, g4) \<Rightarrow>
               (case add_lift (fst st) start_idx end_idx axis lift of
                  Inl e \<Rightarrow> Inl e
                | Inr df \<Rightarrow> Inr (df, g4))))"

text \<open>Line 85: \<^verbatim>\<open>for _ in range(anomaly_blocks)\<close>.\<close>

fun inject_blocks ::
  "'g generator \<Rightarrow> args \<Rightarrow> real \<Rightarrow> int \<Rightarrow> (string \<times> real) list \<Rightarrow> nat \<Rightarrow> frame \<times> 'g \<Rightarrow> error + (frame \<times> 'g)" where
  "inject_blocks ops a iv n rs 0 st = Inr st"
| "inject_blocks ops a iv n rs (Suc k) st =
     (case inject_block ops a iv n rs st of
        Inl e \<Rightarrow> Inl e
      | Inr st' \<Rightarrow> inject_blocks ops a iv n rs k st')"

subsection \<open>The generation routine\<close>

text \<open>
  Line 50: \<^verbatim>\<open>np.random.default_rng(seed)\<close>. A negative seed is refused; without a seed
  NumPy takes the generator from the operating system's entropy, which is the parameter
  \<open>entropy\<close> here.
\<close>

definition new_rng :: "'g generator \<Rightarrow> 'g \<Rightarrow> int option \<Rightarrow> error + 'g" where
  "new_rng ops entropy s =
     (case s of
        None \<Rightarrow> Inr entropy
      | Some k \<Rightarrow> if k < 0 then Inl ValueError else Inr (default_rng ops (nat k)))"

text \<open>Lines 50 to 82: everything before the anomaly blocks.\<close>

definition baseline ::
  "library \<Rightarrow> 'g generator \<Rightarrow> 'g \<Rightarrow> args \<Rightarrow> error + (frame \<times> 'g \<times> (string \<times> real) list)" where
  "baseline lib ops entropy a =
     (case new_rng ops entropy (seed a) of
        Inl e \<Rightarrow> Inl e
      | Inr rng \<Rightarrow>
          (let iv = resolve_interval (sample_interval_sec a) (df_train a);
               n = resolve_rows (n_rows a) (df_train a)
           in case time_axis lib (df_train a) iv n of
                Inl e \<Rightarrow> Inl e
              | Inr (tms, time_numeric) \<Rightarrow>
                  (case res_std_of (residuals_dict a) (axes a) of
                     Inl e \<Rightarrow> Inl e
                   | Inr rs \<Rightarrow>
                       (case fill_axes ops (models a) rs (drift_per_sec a) time_numeric (axes a)
                               ([(''time'', TimeCol tms), (''time_numeric'', NumCol time_numeric)], rng) of
                          Inl e \<Rightarrow> Inl e
                        | Inr (df, g) \<Rightarrow> Inr (df, g, rs)))))"

definition make_synthetic_test ::
  "library \<Rightarrow> 'g generator \<Rightarrow> 'g \<Rightarrow> args \<Rightarrow> error + (frame \<times> real)" where
  "make_synthetic_test lib ops entropy a =
     (case baseline lib ops entropy a of
        Inl e \<Rightarrow> Inl e
      | Inr (df, g, rs) \<Rightarrow>
          (let iv = resolve_interval (sample_interval_sec a) (df_train a);
               n = resolve_rows (n_rows a) (df_train a)
           in case inject_blocks ops a iv n rs (nat (anomaly_blocks a)) (df, g) of
                Inl e \<Rightarrow> Inl e
              | Inr (df_test, g') \<Rightarrow> Inr (df_test, iv)))"

subsection \<open>A small generator to run the model\<close>

text \<open>
  The state is a counter. The draws are in the ranges NumPy promises: \<open>normal\<close> returns
  \<open>size\<close> values, \<open>uniform\<close> a value between the bounds, \<open>integers\<close> a value from the low
  bound up to but not including the high one, \<open>choice\<close> an element of the list.
\<close>

definition counter_rng :: "nat generator" where
  "counter_rng =
     \<lparr> default_rng = (\<lambda>s. s),
       normal = (\<lambda>g loc scale n. (replicate n (loc + scale * (real (g mod 3) - 1)), Suc g)),
       uniform = (\<lambda>g lo hi. (lo + (hi - lo) * (real (g mod 4) / 4), Suc g)),
       integers = (\<lambda>g lo hi. (lo + int g mod (hi - lo), Suc g)),
       choice = (\<lambda>g xs. (xs ! (g mod length xs), Suc g)) \<rparr>"

definition rng_ok :: "'g generator \<Rightarrow> bool" where
  "rng_ok ops \<longleftrightarrow>
     (\<forall>g loc scale n. length (fst (normal ops g loc scale n)) = n) \<and>
     (\<forall>g lo hi. lo \<le> hi \<longrightarrow> lo \<le> fst (uniform ops g lo hi) \<and> fst (uniform ops g lo hi) \<le> hi) \<and>
     (\<forall>g lo hi. lo < hi \<longrightarrow> lo \<le> fst (integers ops g lo hi) \<and> fst (integers ops g lo hi) < hi) \<and>
     (\<forall>g xs. xs \<noteq> [] \<longrightarrow> fst (choice ops g xs) \<in> set xs)"

subsection \<open>Library arithmetic to run the model\<close>

text \<open>
  \<open>exact_lib\<close> multiplies without rounding and gives the seconds of a time delta as the
  nanoseconds over \<open>1e9\<close>. It agrees with double arithmetic on the calls below that use
  it: their float products are products of whole numbers, or have a factor zero or one.
\<close>

definition exact_lib :: library where
  "exact_lib = \<lparr> float_mul = (\<lambda>x y. x * y), timedelta_seconds = total_seconds \<rparr>"



subsection \<open>The interval policy in the words of the specification\<close>

text \<open>
  The specification: a finite positive interval of the caller is used as it is; otherwise
  the interval is the median of the consecutive differences of the training timestamps,
  in seconds; a median that is not finite or not positive is replaced by one second.
\<close>

definition spec_interval :: "pyfloat option \<Rightarrow> int list \<Rightarrow> real" where
  "spec_interval si train =
     (let supplied =
            (case si of
               None \<Rightarrow> None
             | Some x \<Rightarrow> (case x of Finite r \<Rightarrow> if 0 < r then Some r else None | _ \<Rightarrow> None))
      in case supplied of
           Some r \<Rightarrow> r
         | None \<Rightarrow>
             (case nanmedian (map total_seconds (diff train)) of
                None \<Rightarrow> 1
              | Some m \<Rightarrow> if m \<le> 0 then 1 else m))"

subsection \<open>Rows of a column\<close>


subsection \<open>The noise of each axis\<close>

text \<open>
  The generator is read once per entry of \<^verbatim>\<open>axes\<close>, in order: \<open>noise_draws\<close> lists, for
  every entry, the vector that line 78 draws for it, threading the state as the loop of
  lines 76 to 80 does. An axis that is listed twice is drawn twice, and line 80 keeps the
  later column: its noise is the first entry for the axis in \<open>rev (noise_draws ...)\<close>.
\<close>

fun noise_draws ::
  "'g generator \<Rightarrow> (string \<times> real) list \<Rightarrow> nat \<Rightarrow> string list \<Rightarrow> 'g \<Rightarrow> (string \<times> real list) list" where
  "noise_draws ops rs n [] g = []"
| "noise_draws ops rs n (axis # rest) g =
     (case map_of rs axis of
        None \<Rightarrow> []
      | Some s \<Rightarrow> (axis, fst (normal ops g 0 s n)) # noise_draws ops rs n rest (snd (normal ops g 0 s n)))"

subsection \<open>Concrete calls\<close>

text \<open>
  Three training rows ten seconds apart, one axis with the trend \<open>2 t + 1\<close>, three
  synthetic rows, one anomaly block, thresholds for the axis.
\<close>

definition ex_args :: args where
  "ex_args =
     \<lparr> df_train = [0, 10000000000, 20000000000],
       models = [(''a'', \<lambda>t. 2 * t + 1)],
       axes = [''a''],
       n_rows = Some 3,
       sample_interval_sec = None,
       anomaly_blocks = 1,
       block_min_sec = 20,
       block_max_sec = 25,
       drift_per_sec = 0,
       seed = Some 42,
       residuals_dict = None,
       force_above = True,
       MinC = None,
       MaxC = Some [(''a'', 10)] \<rparr>"

text \<open>The table of that call before the anomaly block is added.\<close>

definition ex_frame :: frame where
  "ex_frame =
     [(''time'', TimeCol [30000000000, 40000000000, 50000000000]),
      (''time_numeric'', NumCol [0, 10, 20]),
      (''a'', NumCol [0, 20, 40])]"





text \<open>Training rows 15.7 milliseconds apart, no interval given, no anomaly block.\<close>

definition ex_ms :: args where
  "ex_ms = ex_args\<lparr>df_train := [0, 15700000, 31400000], anomaly_blocks := 0\<rparr>"





text \<open>
  The first call with a trend far below zero and residuals without spread: the baseline
  of the axis is \<open>-1000\<close> on every row and its upper threshold is 10.
\<close>

definition ex_bad :: args where
  "ex_bad = ex_args\<lparr>models := [(''a'', \<lambda>t. - 1000)], residuals_dict := Some [(''a'', [0, 0])]\<rparr>"

section \<open>Properties\<close>

subsection \<open>Rounding and time deltas\<close>

lemma py_round_of_int: "py_round (of_int j) = j"
  by (simp add: py_round_def)

lemma trunc_of_int: "trunc (of_int j) = j"
  by (simp add: trunc_def)

lemma float_mul_exact: "float_mul exact_lib x y = x * y"
  by (simp add: exact_lib_def)

lemma timedelta_seconds_exact: "timedelta_seconds exact_lib ns = of_int ns / 1000000000"
  by (simp add: exact_lib_def total_seconds_def)

lemma to_timedelta_exact:
  assumes "x * 1000000000 = of_int k"
  shows "to_timedelta exact_lib x = k"
proof -
  define N where "N = k - trunc x * 1000000000"
  have "(x - of_int (trunc x)) * 1000000000 = of_int N"
    using assms by (simp add: N_def algebra_simps)
  then have r: "py_round ((x - of_int (trunc x)) * 1000000000) = N"
    by (simp only: py_round_of_int)
  have m: "float_mul exact_lib (of_int N / 1000000000) 1000000000 = of_int N"
    by (simp add: float_mul_exact)
  show ?thesis
    unfolding to_timedelta_def Let_def r m trunc_of_int by (simp add: N_def)
qed

lemma to_timedelta_numeral: "to_timedelta exact_lib (numeral k) = numeral k * 1000000000"
  by (rule to_timedelta_exact) simp

lemma to_timedelta_0: "to_timedelta exact_lib 0 = 0"
  by (rule to_timedelta_exact) simp



lemma py_round_19_8: "py_round (19 / 8) = 2"
  by (simp add: py_round_def)

subsection \<open>One anomaly block\<close>

lemma length_lift_rows: "length (lift_rows s e l xs) = length xs"
  by (simp add: lift_rows_def)

lemma nth_lift_rows:
  "i < length xs \<Longrightarrow> lift_rows s e l xs ! i = (if s \<le> int i \<and> int i < e then xs ! i + l else xs ! i)"
  by (simp add: lift_rows_def)

lemma lift_rows_map:
  "lift_rows s e l xs = map (\<lambda>i. if s \<le> int i \<and> int i < e then xs ! i + l else xs ! i) [0..<length xs]"
  by (rule nth_equalityI) (simp_all add: length_lift_rows nth_lift_rows)

lemma add_lift_Inr:
  assumes "add_lift df s e axis l = Inr df'"
  shows "\<exists>xs. map_of df axis = Some (NumCol xs) \<and>
              df' = AList.update axis (NumCol (lift_rows s e l xs)) df"
  using assms by (auto simp: add_lift_def split: option.splits column.splits)

lemma inject_block_Inr:
  assumes "inject_block ops a iv n rs (df, g) = Inr (df', g')"
  shows "\<exists>s e axis g3 l. draw_block ops a iv n g = Inr (s, e, axis, g3) \<and>
           block_lift ops a rs axis g3 = Inr (l, g') \<and>
           add_lift df s e axis l = Inr df'"
  using assms by (auto simp: inject_block_def split: sum.splits prod.splits)

lemma draw_block_Inr:
  assumes "draw_block ops a iv n g = Inr (s, e, axis, g3)"
  shows "iv \<noteq> 0 \<and> axes a \<noteq> [] \<and>
         s = fst (integers ops (snd (uniform ops g (block_min_sec a) (block_max_sec a))) 0
                    (max 1 (n - max 1 (py_round (fst (uniform ops g (block_min_sec a) (block_max_sec a)) / iv))))) \<and>
         e = min n (s + max 1 (py_round (fst (uniform ops g (block_min_sec a) (block_max_sec a)) / iv))) \<and>
         axis = fst (choice ops
                  (snd (integers ops (snd (uniform ops g (block_min_sec a) (block_max_sec a))) 0
                    (max 1 (n - max 1 (py_round (fst (uniform ops g (block_min_sec a) (block_max_sec a)) / iv))))))
                  (axes a))"
  using assms by (auto simp: draw_block_def Let_def split: prod.splits if_splits)

lemma inject_blocks_add:
  "inject_blocks ops a iv n rs (j + k) st =
     (case inject_blocks ops a iv n rs j st of
        Inl e \<Rightarrow> Inl e
      | Inr st' \<Rightarrow> inject_blocks ops a iv n rs k st')"
  by (induction j arbitrary: st) (auto split: sum.splits)

lemma block_lift_missing:
  "force_above a \<Longrightarrow> MaxC a = Some m \<Longrightarrow> map_of m axis = None \<Longrightarrow>
   block_lift ops a rs axis g = Inl (KeyError axis)"
  by (simp add: block_lift_def)

subsection \<open>The columns of the baseline\<close>

lemma baseline_Inr:
  assumes "baseline lib ops entropy a = Inr (df, g, rs)"
  shows "\<exists>rng tms tn.
           new_rng ops entropy (seed a) = Inr rng \<and>
           time_axis lib (df_train a) (resolve_interval (sample_interval_sec a) (df_train a))
             (resolve_rows (n_rows a) (df_train a)) = Inr (tms, tn) \<and>
           res_std_of (residuals_dict a) (axes a) = Inr rs \<and>
           fill_axes ops (models a) rs (drift_per_sec a) tn (axes a)
             ([(''time'', TimeCol tms), (''time_numeric'', NumCol tn)], rng) = Inr (df, g)"
  using assms by (auto simp: baseline_def Let_def split: sum.splits prod.splits)






lemma fill_axes_unchanged:
  "fill_axes ops ms rs dps tn as (data, g) = Inr (df, g') \<Longrightarrow> c \<notin> set as \<Longrightarrow>
   map_of df c = map_of data c"
proof (induction as arbitrary: data g)
  case Nil
  then show ?case by simp
next
  case (Cons axis rest)
  from Cons.prems(1) obtain m s where
    rest: "fill_axes ops ms rs dps tn rest
       (AList.update axis (NumCol (axis_column m (fst (normal ops g 0 s (length tn))) dps tn)) data,
        snd (normal ops g 0 s (length tn))) = Inr (df, g')"
    by (auto simp: case_prod_beta split: option.splits)
  from Cons.prems(2) have "c \<notin> set rest" and "c \<noteq> axis" by auto
  from Cons.IH [OF rest this(1)] this(2) show ?case
    by (simp add: update_conv')
qed

lemma noise_draws_keys: "fst ` set (noise_draws ops rs n as g) \<subseteq> set as"
  by (induction as arbitrary: g) (auto split: option.splits)

lemma noise_draws_length:
  "rng_ok ops \<Longrightarrow> (axis, noise) \<in> set (noise_draws ops rs n as g) \<Longrightarrow> length noise = n"
  by (induction as arbitrary: g) (auto simp: rng_ok_def split: option.splits)

lemma fill_axes_column:
  "fill_axes ops ms rs dps tn as (data, g) = Inr (df, g') \<Longrightarrow> axis \<in> set as \<Longrightarrow>
   \<exists>m noise. map_of ms axis = Some m \<and>
     map_of (rev (noise_draws ops rs (length tn) as g)) axis = Some noise \<and>
     map_of df axis = Some (NumCol (axis_column m noise dps tn))"
proof (induction as arbitrary: data g)
  case Nil
  then show ?case by simp
next
  case (Cons b rest)
  from Cons.prems(1) obtain m s where ms: "map_of ms b = Some m" and rs: "map_of rs b = Some s"
    and rest: "fill_axes ops ms rs dps tn rest
       (AList.update b (NumCol (axis_column m (fst (normal ops g 0 s (length tn))) dps tn)) data,
        snd (normal ops g 0 s (length tn))) = Inr (df, g')"
    by (auto simp: case_prod_beta split: option.splits)
  let ?later = "noise_draws ops rs (length tn) rest (snd (normal ops g 0 s (length tn)))"
  show ?case
  proof (cases "axis \<in> set rest")
    case True
    from Cons.IH [OF rest True] show ?thesis
      using rs by (auto simp: map_add_def)
  next
    case False
    with Cons.prems(2) have b: "axis = b" by simp
    from False noise_draws_keys [of ops rs "length tn" rest "snd (normal ops g 0 s (length tn))"]
    have "axis \<notin> fst ` set (rev ?later)" by auto
    then have none: "map_of (rev ?later) axis = None"
      by (simp add: map_of_eq_None_iff)
    from fill_axes_unchanged [OF rest False] show ?thesis
      using ms rs b none by (simp add: update_conv' map_add_def)
  qed
qed

lemma axis_column_nth:
  "length noise = length tn \<Longrightarrow> j < length tn \<Longrightarrow>
   axis_column m noise dps tn ! j = m (tn ! j) + noise ! j + dps * tn ! j"
  by (simp add: axis_column_def)

lemma length_axis_column:
  "length noise = length tn \<Longrightarrow> length (axis_column m noise dps tn) = length tn"
  by (simp add: axis_column_def)

subsection \<open>Running the model\<close>

lemma rng_ok_counter: "rng_ok counter_rng"
proof -
  have u: "lo \<le> lo + (hi - lo) * (real (g mod 4) / 4) \<and> lo + (hi - lo) * (real (g mod 4) / 4) \<le> hi"
    if "lo \<le> hi" for lo hi :: real and g :: nat
  proof -
    have "g mod 4 < 4" by simp
    then have t: "0 \<le> real (g mod 4) / 4" "real (g mod 4) / 4 \<le> 1" by simp_all
    have "0 \<le> (hi - lo) * (real (g mod 4) / 4)"
      using that t(1) by simp
    moreover have "(hi - lo) * (real (g mod 4) / 4) \<le> (hi - lo) * 1"
      using that t(2) by (intro mult_left_mono) simp_all
    ultimately show ?thesis by simp
  qed
  have i: "lo \<le> lo + int g mod (hi - lo) \<and> lo + int g mod (hi - lo) < hi"
    if "lo < hi" for lo hi :: int and g :: nat
  proof -
    from that have "0 < hi - lo" by simp
    then have "0 \<le> int g mod (hi - lo)" and "int g mod (hi - lo) < hi - lo"
      by (rule pos_mod_sign, rule pos_mod_bound)
    then show ?thesis by linarith
  qed
  have c: "xs ! (g mod length xs) \<in> set xs" if "xs \<noteq> []" for xs :: "string list" and g :: nat
    using that by simp
  show ?thesis
    using u i c by (simp add: rng_ok_def counter_rng_def)
qed

lemmas eval_defs =
  make_synthetic_test_def baseline_def new_rng_def counter_rng_def time_axis_def
  resolve_rows_def resolve_interval_def estimate_interval_def nanmedian_def
  total_seconds_def res_std_of_def synthetic_times_def axis_column_def inject_block_def
  draw_block_def block_lift_def add_lift_def lift_rows_def upt_conv_Cons
  to_timedelta_numeral to_timedelta_0 float_mul_exact timedelta_seconds_exact



lemma np_std_zeros: "np_std [0, 0] = Some 0"
  by (simp add: np_std_def)






lemma run_ex_bad:
  "make_synthetic_test exact_lib counter_rng 0 ex_bad =
     Inr ([(''time'', TimeCol [30000000000, 40000000000, 50000000000]),
           (''time_numeric'', NumCol [0, 10, 20]),
           (''a'', NumCol [- 1973 / 2, - 1973 / 2, - 1000])], 10)"
  by (simp add: eval_defs ex_args_def ex_bad_def np_std_zeros py_round_19_8)







lemma interval_ex_ms: "resolve_interval (sample_interval_sec ex_ms) (df_train ex_ms) = 157 / 10000"
  by (simp add: ex_ms_def ex_args_def resolve_interval_def estimate_interval_def nanmedian_def
        total_seconds_def)


subsection \<open>The time columns of the result\<close>











subsection \<open>A run with any generator\<close>

lemma py_round_2: 
  assumes "2 \<le> x" and "x \<le> 5 / 2"
  shows "py_round x = 2"
proof -
  have f: "\<lfloor>x\<rfloor> = 2"
    using assms by (intro floor_unique) simp_all
  show ?thesis
    using assms by (simp add: py_round_def f)
qed

lemma rng_ok_uniform:
  "rng_ok ops \<Longrightarrow> lo \<le> hi \<Longrightarrow>
   lo \<le> fst (uniform ops g lo hi) \<and> fst (uniform ops g lo hi) \<le> hi"
  unfolding rng_ok_def by blast

lemma rng_ok_integers:
  "rng_ok ops \<Longrightarrow> lo < hi \<Longrightarrow>
   lo \<le> fst (integers ops g lo hi) \<and> fst (integers ops g lo hi) < hi"
  unfolding rng_ok_def by blast

lemma rng_ok_choice:
  "rng_ok ops \<Longrightarrow> xs \<noteq> [] \<Longrightarrow> fst (choice ops g xs) \<in> set xs"
  unfolding rng_ok_def by blast

lemma force_above_any_generator:
  assumes ok: "rng_ok ops" and z: "\<forall>g n. fst (normal ops g 0 0 n) = replicate n 0"
  shows "\<exists>u df. 6 / 5 \<le> u \<and> u \<le> 3 / 2 \<and>
           make_synthetic_test exact_lib ops entropy ex_bad = Inr (df, 10) \<and>
           map_of df ''a'' = Some (NumCol [- 1000 + 10 * u, - 1000 + 10 * u, - 1000])"
proof -
  let ?F0 = "[(''time'', TimeCol [30000000000, 40000000000, 50000000000]),
              (''time_numeric'', NumCol [0, 10, 20]),
              (''a'', NumCol [- 1000, - 1000, - 1000])]"
  define g1 where "g1 = snd (normal ops (default_rng ops 42) 0 0 (Suc (Suc (Suc 0))))"
  define d where "d = fst (uniform ops g1 20 25)"
  define g2 where "g2 = snd (uniform ops g1 20 25)"
  define s where "s = fst (integers ops g2 0 1)"
  define g3 where "g3 = snd (integers ops g2 0 1)"
  define ax where "ax = fst (choice ops g3 [''a''])"
  define g4 where "g4 = snd (choice ops g3 [''a''])"
  define u where "u = fst (uniform ops g4 (6 / 5) (3 / 2))"
  define g5 where "g5 = snd (uniform ops g4 (6 / 5) (3 / 2))"
  have iv: "resolve_interval (sample_interval_sec ex_bad) (df_train ex_bad) = 10"
    and n: "resolve_rows (n_rows ex_bad) (df_train ex_bad) = 3"
    by (simp_all add: eval_defs ex_bad_def ex_args_def)
  have b: "baseline exact_lib ops entropy ex_bad = Inr (?F0, g1, [(''a'', 0)])"
    using z by (simp add: baseline_def new_rng_def time_axis_def resolve_rows_def resolve_interval_def
        estimate_interval_def nanmedian_def total_seconds_def res_std_of_def synthetic_times_def
        axis_column_def upt_conv_Cons to_timedelta_numeral to_timedelta_0
        float_mul_exact timedelta_seconds_exact
        ex_bad_def ex_args_def np_std_zeros case_prod_beta g1_def)
  have "20 \<le> d \<and> d \<le> 25"
    using rng_ok_uniform [OF ok, of 20 25 g1] by (simp add: d_def)
  then have r: "py_round (d / 10) = 2"
    by (intro py_round_2) simp_all
  have "0 \<le> s \<and> s < 1"
    using rng_ok_integers [OF ok, of 0 1 g2] by (simp add: s_def)
  then have s0: "s = 0" by simp
  have "ax \<in> set [''a'']"
    unfolding ax_def by (rule rng_ok_choice [OF ok]) simp
  then have a: "ax = ''a''" by simp
  have u: "6 / 5 \<le> u \<and> u \<le> 3 / 2"
    using rng_ok_uniform [OF ok, of "6 / 5" "3 / 2" g4] by (simp add: u_def)
  have db: "draw_block ops ex_bad 10 3 g1 = Inr (0, 2, ''a'', g4)"
    using r s0 a
    by (simp add: draw_block_def case_prod_beta ex_bad_def ex_args_def
        d_def g2_def s_def g3_def ax_def g4_def prod_eq_iff)
  have bl: "block_lift ops ex_bad [(''a'', 0)] ''a'' g4 = Inr (10 * u, g5)"
    by (simp add: block_lift_def case_prod_beta ex_bad_def ex_args_def u_def g5_def)
  have al: "add_lift ?F0 0 2 ''a'' (10 * u) =
              Inr [(''time'', TimeCol [30000000000, 40000000000, 50000000000]),
                   (''time_numeric'', NumCol [0, 10, 20]),
                   (''a'', NumCol [- 1000 + 10 * u, - 1000 + 10 * u, - 1000])]"
    by (simp add: add_lift_def lift_rows_def upt_conv_Cons)
  have "make_synthetic_test exact_lib ops entropy ex_bad =
          Inr ([(''time'', TimeCol [30000000000, 40000000000, 50000000000]),
                (''time_numeric'', NumCol [0, 10, 20]),
                (''a'', NumCol [- 1000 + 10 * u, - 1000 + 10 * u, - 1000])], 10)"
  proof -
    have k: "nat (anomaly_blocks ex_bad) = Suc 0"
      by (simp add: ex_bad_def ex_args_def)
    have "inject_block ops ex_bad 10 3 [(''a'', 0)] (?F0, g1) =
            Inr ([(''time'', TimeCol [30000000000, 40000000000, 50000000000]),
                  (''time_numeric'', NumCol [0, 10, 20]),
                  (''a'', NumCol [- 1000 + 10 * u, - 1000 + 10 * u, - 1000])], g5)"
      by (simp add: inject_block_def db bl al)
    then show ?thesis
      by (simp add: make_synthetic_test_def b iv n k)
  qed
  with u show ?thesis by auto
qed

subsection \<open>A request for zero rows\<close>

text \<open>
  C1. The claim: with \<^verbatim>\<open>n_rows = 0\<close> the call returns a table without rows and raises
  nothing. The code: \<^verbatim>\<open>times\<close> is empty and \<^verbatim>\<open>t0 = times[0]\<close> raises IndexError, for
  every training frame, every generator and every other argument (the seed set to the
  default 42 here, so that the generator is built).
\<close>

theorem n_rows_zero_raises:
  "make_synthetic_test lib ops entropy (a\<lparr>n_rows := Some 0, seed := Some 42\<rparr>) = Inl IndexError"
  by (simp add: make_synthetic_test_def baseline_def new_rng_def resolve_rows_def time_axis_def)

subsection \<open>Forcing a block above its threshold\<close>

text \<open>
  C2. The claim: with \<^verbatim>\<open>force_above\<close> and a threshold for every axis, every row of a
  block is above \<^verbatim>\<open>MaxC[axis]\<close> on the block's axis. The code adds
  \<open>|MaxC[axis]| * U(1.2, 1.5)\<close> to what is there, so a baseline far enough below the
  threshold stays below it: here the block covers rows 0 and 1 of axis \<open>a\<close>, whose
  values end at \<open>-986.5\<close>, under the threshold 10. (\<open>force_above_any_generator\<close> above
  shows the same for every generator that draws in range.)
\<close>

theorem force_above_stays_below:
  "make_synthetic_test exact_lib counter_rng 0 ex_bad =
     Inr ([(''time'', TimeCol [30000000000, 40000000000, 50000000000]),
           (''time_numeric'', NumCol [0, 10, 20]),
           (''a'', NumCol [- 1973 / 2, - 1973 / 2, - 1000])], 10) \<and>
   force_above ex_bad \<and> MaxC ex_bad = Some [(''a'', 10)] \<and>
   draw_block counter_rng ex_bad 10 3 43 = Inr (0, 2, ''a'', 46) \<and>
   \<not> (10 :: real) < - 1973 / 2"
proof -
  have "force_above ex_bad" and "MaxC ex_bad = Some [(''a'', 10)]"
    by (simp_all add: ex_bad_def ex_args_def)
  moreover have "draw_block counter_rng ex_bad 10 3 43 = Inr (0, 2, ''a'', 46)"
    by (simp add: ex_bad_def ex_args_def draw_block_def counter_rng_def py_round_19_8)
  ultimately show ?thesis
    by (simp add: run_ex_bad)
qed

subsection \<open>The seed\<close>

text \<open>
  C3. With a seed, the result of the call is a function of the arguments alone: the
  entropy of the operating system, the only state outside the arguments that the call
  could read, does not reach the output table or the returned interval.
\<close>

theorem seed_determines_output:
  "seed a = Some s \<Longrightarrow> make_synthetic_test lib ops e1 a = make_synthetic_test lib ops e2 a"
  by (simp add: make_synthetic_test_def baseline_def new_rng_def)

theorem seed_determines_output_witness:
  "seed ex_args = Some 42 \<and>
   make_synthetic_test exact_lib counter_rng 0 ex_args = make_synthetic_test exact_lib counter_rng 7 ex_args"
  using seed_determines_output [of ex_args 42 exact_lib counter_rng 0 7] by (simp add: ex_args_def)

subsection \<open>The sampling interval\<close>

text \<open>
  C4, as the code has it. A finite interval of the caller is used as it is, whatever its
  sign. Without an interval, or with NaN or an infinity, the code follows the
  specification: the median of the differences, and one second when there is no median
  or it is not positive.
\<close>

theorem resolve_interval_cases:
  "resolve_interval (Some (Finite r)) train = r \<and>
   resolve_interval None train = spec_interval None train \<and>
   resolve_interval (Some NaN) train = spec_interval (Some NaN) train \<and>
   resolve_interval (Some PosInf) train = spec_interval (Some PosInf) train \<and>
   resolve_interval (Some NegInf) train = spec_interval (Some NegInf) train"
  by (simp add: resolve_interval_def spec_interval_def estimate_interval_def)

text \<open>
  C4, as the specification words it, fails on a finite interval that is not positive: the
  caller's \<open>-5\<close> is returned, where the policy of the specification gives the median, ten
  seconds.
\<close>

theorem resolve_interval_counterexample:
  "resolve_interval (Some (Finite (- 5))) [0, 10000000000, 20000000000] = - 5 \<and>
   spec_interval (Some (Finite (- 5))) [0, 10000000000, 20000000000] = 10"
  by (simp add: resolve_interval_def spec_interval_def nanmedian_def total_seconds_def)


subsection \<open>The synthetic timestamps\<close>




subsection \<open>The elapsed seconds\<close>




subsection \<open>Without anomaly blocks\<close>

text \<open>
  C7. With \<^verbatim>\<open>anomaly_blocks = 0\<close> (or less: \<^verbatim>\<open>range\<close> is empty) the returned table is the
  baseline table of lines 50 to 82, untouched. The column of each axis is, row by row, the
  prediction of its model on the elapsed seconds, plus the noise drawn for that axis (the
  last draw, for an axis listed twice), plus \<^verbatim>\<open>drift_per_sec\<close> times the elapsed
  seconds; no lift is added to any row.
\<close>

theorem no_blocks_is_baseline:
  assumes "anomaly_blocks a \<le> 0"
    and "make_synthetic_test lib ops entropy a = Inr (df, iv)"
    and "rng_ok ops"
  shows "\<exists>rng tms tn g rs.
           new_rng ops entropy (seed a) = Inr rng \<and>
           time_axis lib (df_train a) (resolve_interval (sample_interval_sec a) (df_train a))
             (resolve_rows (n_rows a) (df_train a)) = Inr (tms, tn) \<and>
           baseline lib ops entropy a = Inr (df, g, rs) \<and>
           (\<forall>axis \<in> set (axes a). \<exists>m noise col.
              map_of (models a) axis = Some m \<and>
              map_of (rev (noise_draws ops rs (length tn) (axes a) rng)) axis = Some noise \<and>
              map_of df axis = Some (NumCol col) \<and>
              length col = length tn \<and>
              (\<forall>j < length tn. col ! j = m (tn ! j) + noise ! j + drift_per_sec a * tn ! j))"
proof -
  from assms(1) have z: "nat (anomaly_blocks a) = 0" by simp
  from assms(2) obtain g rs where b: "baseline lib ops entropy a = Inr (df, g, rs)"
    by (auto simp: make_synthetic_test_def z Let_def split: sum.splits)
  from baseline_Inr [OF b] obtain rng tms tn where
    r: "new_rng ops entropy (seed a) = Inr rng"
    and t: "time_axis lib (df_train a) (resolve_interval (sample_interval_sec a) (df_train a))
             (resolve_rows (n_rows a) (df_train a)) = Inr (tms, tn)"
    and f: "fill_axes ops (models a) rs (drift_per_sec a) tn (axes a)
             ([(''time'', TimeCol tms), (''time_numeric'', NumCol tn)], rng) = Inr (df, g)"
    by blast
  have "\<exists>m noise col.
          map_of (models a) axis = Some m \<and>
          map_of (rev (noise_draws ops rs (length tn) (axes a) rng)) axis = Some noise \<and>
          map_of df axis = Some (NumCol col) \<and>
          length col = length tn \<and>
          (\<forall>j < length tn. col ! j = m (tn ! j) + noise ! j + drift_per_sec a * tn ! j)"
    if "axis \<in> set (axes a)" for axis
  proof -
    from fill_axes_column [OF f that] obtain m noise where
      m: "map_of (models a) axis = Some m"
      and n: "map_of (rev (noise_draws ops rs (length tn) (axes a) rng)) axis = Some noise"
      and c: "map_of df axis = Some (NumCol (axis_column m noise (drift_per_sec a) tn))"
      by blast
    from n have "(axis, noise) \<in> set (noise_draws ops rs (length tn) (axes a) rng)"
      using map_of_SomeD by fastforce
    from noise_draws_length [OF assms(3) this] have l: "length noise = length tn" .
    show ?thesis
      using m n c l by (simp add: axis_column_nth length_axis_column)
  qed
  with r t b show ?thesis by blast
qed

theorem no_blocks_is_baseline_witness:
  "\<exists>g rs. baseline exact_lib counter_rng 0 (ex_args\<lparr>anomaly_blocks := 0\<rparr>) = Inr (ex_frame, g, rs)"
proof -
  let ?a = "ex_args\<lparr>anomaly_blocks := 0\<rparr>"
  have 1: "anomaly_blocks ?a \<le> 0"
    by (simp add: ex_args_def)
  have 2: "make_synthetic_test exact_lib counter_rng 0 ?a = Inr (ex_frame, 10)"
    by (simp add: eval_defs ex_args_def ex_frame_def)
  from no_blocks_is_baseline [OF 1 2 rng_ok_counter] show ?thesis
    by blast
qed

subsection \<open>A missing threshold\<close>

text \<open>
  C8. With \<^verbatim>\<open>force_above\<close> and a threshold mapping that has no entry for the axis a block
  selects, the block raises KeyError for that axis, and so does the call: the blocks before
  it have run, the draws of this one are made, and the lookup \<^verbatim>\<open>MaxC[axis]\<close> fails before
  any lift is computed.
\<close>

theorem missing_threshold_raises:
  assumes "baseline lib ops entropy a = Inr (df0, g0, rs)"
    and "iv = resolve_interval (sample_interval_sec a) (df_train a)"
    and "n = resolve_rows (n_rows a) (df_train a)"
    and "j < nat (anomaly_blocks a)"
    and "inject_blocks ops a iv n rs j (df0, g0) = Inr (df, g)"
    and "draw_block ops a iv n g = Inr (start_idx, end_idx, axis, g3)"
    and "force_above a" and "MaxC a = Some m" and "map_of m axis = None"
  shows "inject_block ops a iv n rs (df, g) = Inl (KeyError axis) \<and>
         make_synthetic_test lib ops entropy a = Inl (KeyError axis)"
proof -
  have blk: "inject_block ops a iv n rs (df, g) = Inl (KeyError axis)"
    using assms(6) block_lift_missing [OF assms(7-9), of ops rs g3] by (simp add: inject_block_def)
  obtain k where "nat (anomaly_blocks a) = Suc (j + k)"
    using less_imp_Suc_add [OF assms(4)] by auto
  then have k: "nat (anomaly_blocks a) = j + Suc k"
    by simp
  have "inject_blocks ops a iv n rs (j + Suc k) (df0, g0) =
          (case inject_blocks ops a iv n rs j (df0, g0) of
             Inl e \<Rightarrow> Inl e
           | Inr st' \<Rightarrow> inject_blocks ops a iv n rs (Suc k) st')"
    by (rule inject_blocks_add)
  also have "\<dots> = Inl (KeyError axis)"
    by (simp add: assms(5) blk)
  finally have "inject_blocks ops a iv n rs (nat (anomaly_blocks a)) (df0, g0) = Inl (KeyError axis)"
    by (simp only: k)
  then have "make_synthetic_test lib ops entropy a = Inl (KeyError axis)"
    by (simp add: make_synthetic_test_def assms(1) assms(2) [symmetric] assms(3) [symmetric])
  with blk show ?thesis by simp
qed

theorem missing_threshold_raises_witness:
  "make_synthetic_test exact_lib counter_rng 0 (ex_args\<lparr>MaxC := Some []\<rparr>) = Inl (KeyError ''a'')"
proof -
  let ?a = "ex_args\<lparr>MaxC := Some []\<rparr>"
  have b: "baseline exact_lib counter_rng 0 ?a = Inr (ex_frame, 43, [(''a'', 1)])"
    by (simp add: eval_defs ex_args_def ex_frame_def)
  have iv: "(10::real) = resolve_interval (sample_interval_sec ?a) (df_train ?a)"
    by (simp add: eval_defs ex_args_def)
  have n: "(3::int) = resolve_rows (n_rows ?a) (df_train ?a)"
    by (simp add: eval_defs ex_args_def)
  have j: "0 < nat (anomaly_blocks ?a)"
    by (simp add: ex_args_def)
  have l: "inject_blocks counter_rng ?a 10 3 [(''a'', 1)] 0 (ex_frame, 43) = Inr (ex_frame, 43)"
    by simp
  have d: "draw_block counter_rng ?a 10 3 43 = Inr (0, 2, ''a'', 46)"
    by (simp add: draw_block_def counter_rng_def ex_args_def py_round_19_8)
  have f: "force_above ?a" and m: "MaxC ?a = Some []" and k: "map_of ([] :: (string \<times> real) list) ''a'' = None"
    by (simp_all add: ex_args_def)
  from missing_threshold_raises [OF b iv n j l d f m k] show ?thesis by simp
qed

subsection \<open>The frame of a block\<close>

text \<open>
  C9. A block that runs changes the table in one place only. With
  \<open>block_len_rows = max 1 (round (duration / interval))\<close> and
  \<open>end_idx = min n_rows (start_idx + block_len_rows)\<close>, the column of the selected axis
  gets the lift that lines 92 to 97 compute for that axis, on the rows from \<open>start_idx\<close>
  up to but not including \<open>end_idx\<close>, and keeps its other rows; every other column is the
  same, and so is the order of the columns.
\<close>

theorem block_frame:
  assumes "inject_block ops a iv n rs (df, g) = Inr (df', g')"
    and "block_len_rows = max 1 (py_round (fst (uniform ops g (block_min_sec a) (block_max_sec a)) / iv))"
    and "g1 = snd (uniform ops g (block_min_sec a) (block_max_sec a))"
    and "start_idx = fst (integers ops g1 0 (max 1 (n - block_len_rows)))"
    and "g2 = snd (integers ops g1 0 (max 1 (n - block_len_rows)))"
    and "end_idx = min n (start_idx + block_len_rows)"
    and "axis = fst (choice ops g2 (axes a))"
    and "g3 = snd (choice ops g2 (axes a))"
  shows "\<exists>lift xs.
           block_lift ops a rs axis g3 = Inr (lift, g') \<and>
           map_of df axis = Some (NumCol xs) \<and>
           map_of df' axis =
             Some (NumCol (map (\<lambda>i. if start_idx \<le> int i \<and> int i < end_idx then xs ! i + lift else xs ! i)
                             [0..<length xs])) \<and>
           (\<forall>c. c \<noteq> axis \<longrightarrow> map_of df' c = map_of df c) \<and>
           map fst df' = map fst df"
proof -
  obtain s e ax h l where d: "draw_block ops a iv n g = Inr (s, e, ax, h)"
    and bl: "block_lift ops a rs ax h = Inr (l, g')"
    and al: "add_lift df s e ax l = Inr df'"
    using inject_block_Inr [OF assms(1)] by blast
  from draw_block_Inr [OF d] assms(2-7) have eqs: "s = start_idx" "e = end_idx" "ax = axis"
    by simp_all
  from d have "h = snd (choice ops
                  (snd (integers ops (snd (uniform ops g (block_min_sec a) (block_max_sec a))) 0
                    (max 1 (n - max 1 (py_round (fst (uniform ops g (block_min_sec a) (block_max_sec a)) / iv))))))
                  (axes a))"
    by (auto simp: draw_block_def Let_def split: prod.splits if_splits)
  with assms(2-8) have h: "h = g3"
    by simp
  obtain xs where xs: "map_of df axis = Some (NumCol xs)"
    and df': "df' = AList.update axis (NumCol (lift_rows start_idx end_idx l xs)) df"
    using add_lift_Inr [OF al] eqs by auto
  have "axis \<in> fst ` set df"
    using xs by (metis map_of_eq_None_iff option.distinct(1))
  then have "map fst df' = map fst df"
    by (simp add: df' update_keys)
  then show ?thesis
    using xs bl eqs h by (auto simp: df' update_conv' lift_rows_map)
qed

theorem block_frame_witness:
  "block_lift counter_rng ex_args [(''a'', 1)] ''a'' 46 = Inr (27 / 2, 47) \<and>
   inject_block counter_rng ex_args 10 3 [(''a'', 1)] (ex_frame, 43) =
     Inr ([(''time'', TimeCol [30000000000, 40000000000, 50000000000]),
           (''time_numeric'', NumCol [0, 10, 20]), (''a'', NumCol [27 / 2, 67 / 2, 40])], 47) \<and>
   map fst [(''time'', TimeCol [30000000000, 40000000000, 50000000000]),
           (''time_numeric'', NumCol [0, 10, 20]), (''a'', NumCol [27 / 2, 67 / 2, 40])] = map fst ex_frame"
proof -
  let ?df = "[(''time'', TimeCol [30000000000, 40000000000, 50000000000]),
           (''time_numeric'', NumCol [0, 10, 20]), (''a'', NumCol [27 / 2, 67 / 2, 40])]"
  have h: "inject_block counter_rng ex_args 10 3 [(''a'', 1)] (ex_frame, 43) = Inr (?df, 47)"
    by (simp add: inject_block_def draw_block_def block_lift_def add_lift_def lift_rows_def
          counter_rng_def ex_args_def ex_frame_def py_round_19_8 upt_conv_Cons)
  have l: "block_lift counter_rng ex_args [(''a'', 1)] ''a'' 46 = Inr (27 / 2, 47)"
    by (simp add: block_lift_def counter_rng_def ex_args_def)
  from block_frame [OF h refl refl refl refl refl refl refl] have "map fst ?df = map fst ex_frame"
    by blast
  with h l show ?thesis by simp
qed

subsection \<open>No threshold mapping\<close>




end
